theory Spec2Isabelle
  imports Complex_Main "HOL-Library.Sublist"
begin

section \<open>Strings and regular-expression matches\<close>

text \<open>
  JavaScript strings are modelled as \<open>string\<close>: a list of 8-bit characters, read as
  the code units below 256. The result of \<open>String.prototype.match\<close> (without the
  global flag) is a record: the \<open>index\<close> of the match, the matched text (entry 0
  of the array) and the capture groups (entries 1, 2, ...; \<open>None\<close> is a group that
  did not take part, which JavaScript reports as \<open>undefined\<close>).
\<close>

record jsmatch =
  index :: nat
  grp0 :: string
  grps :: "string option list"

text \<open>Group \<open>k\<close> (from 1) of a match; \<open>None\<close> is \<open>undefined\<close>.\<close>

definition grp :: "jsmatch \<Rightarrow> nat \<Rightarrow> string option" where
  "grp m k = (if 0 < k \<and> k \<le> length (grps m) then grps m ! (k - 1) else None)"

text \<open>
  An unanchored search tries the start positions 0, 1, ... up to the length of the
  string and keeps the first at which the anchored matcher succeeds. The anchored
  matcher is told whether it stands at position 0 (for \<open>^\<close>) and sees the rest of the
  string from its position on.
\<close>

fun search_from :: "(bool \<Rightarrow> string \<Rightarrow> (string \<times> string option list) option)
    \<Rightarrow> nat \<Rightarrow> string \<Rightarrow> jsmatch option" where
  "search_from mat i [] =
     (case mat (i = 0) [] of
        Some (w, gs) \<Rightarrow> Some \<lparr>index = i, grp0 = w, grps = gs\<rparr>
      | None \<Rightarrow> None)"
| "search_from mat i (c # t) =
     (case mat (i = 0) (c # t) of
        Some (w, gs) \<Rightarrow> Some \<lparr>index = i, grp0 = w, grps = gs\<rparr>
      | None \<Rightarrow> search_from mat (Suc i) t)"

definition search :: "(bool \<Rightarrow> string \<Rightarrow> (string \<times> string option list) option)
    \<Rightarrow> string \<Rightarrow> jsmatch option" where
  "search mat s = search_from mat 0 s"

text \<open>Character classes of the patterns.\<close>

definition CR :: char where "CR = CHR 0x0D"
definition LF :: char where "LF = CHR 0x0A"

text \<open>\<open>.\<close> matches every character but a line terminator.\<close>

definition is_dot :: "char \<Rightarrow> bool" where
  "is_dot c = (c \<noteq> CR \<and> c \<noteq> LF)"

text \<open>\<open>\s\<close>: tab, line feed, vertical tab, form feed, carriage return, space, no-break space.\<close>

definition is_space :: "char \<Rightarrow> bool" where
  "is_space c = (c \<in> set [CHR 0x09, CHR 0x0A, CHR 0x0B, CHR 0x0C, CHR 0x0D, CHR 0x20, CHR 0xA0])"

text \<open>The code unit of a character.\<close>

definition code :: "char \<Rightarrow> nat" where
  "code c = of_char c"

definition is_digit :: "char \<Rightarrow> bool" where
  "is_digit c = (code (CHR ''0'') \<le> code c \<and> code c \<le> code (CHR ''9''))"


text \<open>A literal piece of a pattern: the rest of the string after it, if it is there.\<close>

fun lit :: "string \<Rightarrow> string \<Rightarrow> string option" where
  "lit [] s = Some s"
| "lit (p # ps) [] = None"
| "lit (p # ps) (c # s) = (if p = c then lit ps s else None)"

section \<open>JavaScript values\<close>

text \<open>
  A number is a finite value, an infinity or NaN. The program never computes with
  numbers: it reads them from literals, compares them and prints them. A finite
  number is therefore modelled by the rational it denotes (the binary rounding of
  a literal is not modelled), and \<open>-0\<close> is \<open>0\<close>.
\<close>

datatype jsnum = Fin rat | PosInf | NegInf | NaN

text \<open>
  The values of a data context: primitives, arrays and plain objects. An array and
  an object carry a reference (their identity, which \<open>===\<close> compares); an object
  lists its own enumerable properties in enumeration order. Functions, holes in
  arrays and inherited properties are not part of a data context.
\<close>

datatype jsval =
    JUndefined
  | JNull
  | JBool bool
  | JNum jsnum
  | JStr string
  | JArr nat "jsval list"
  | JObj nat "(string \<times> jsval) list"


subsection \<open>Numbers and strings\<close>

definition digit_val :: "char \<Rightarrow> nat" where
  "digit_val c = code c - code (CHR ''0'')"

definition digits_val :: "string \<Rightarrow> nat" where
  "digits_val ds = foldl (\<lambda>a c. 10 * a + digit_val c) 0 ds"

definition digit_char :: "nat \<Rightarrow> char" where
  "digit_char d = char_of (code (CHR ''0'') + d)"

text \<open>The decimal digits of a natural number.\<close>

function nat_to_string :: "nat \<Rightarrow> string" where
  "nat_to_string n =
     (if n < 10 then [digit_char n] else nat_to_string (n div 10) @ [digit_char (n mod 10)])"
  by pat_completeness auto
termination
  by (relation "measure (\<lambda>n. n)") auto

declare nat_to_string.simps [simp del]

text \<open>
  The least \<open>f\<close> (up to the fuel) with \<open>r * 10 ^ f\<close> an integer, and that integer: the
  digits of a finite decimal and the place of its point.
\<close>

fun decimal_scale :: "nat \<Rightarrow> rat \<Rightarrow> nat \<Rightarrow> nat \<times> nat" where
  "decimal_scale 0 r f = (nat \<lfloor>r\<rfloor>, f)"
| "decimal_scale (Suc fuel) r f =
     (if of_int \<lfloor>r\<rfloor> = r then (nat \<lfloor>r\<rfloor>, f) else decimal_scale fuel (r * 10) (Suc f))"

definition strip_zeros :: "string \<Rightarrow> string" where
  "strip_zeros ds = rev (dropWhile (\<lambda>c. c = CHR ''0'') (rev ds))"

text \<open>
  \<open>Number::toString\<close> of a positive finite number: with \<open>k\<close> significant digits
  \<open>ds\<close> and the value \<open>0.ds * 10 ^ n\<close>, the digits are written plainly when
  \<open>-6 < n \<le> 21\<close> and with an exponent otherwise.
\<close>

definition pos_to_string :: "rat \<Rightarrow> string" where
  "pos_to_string r =
     (let (m, f) = decimal_scale 1100 r 0;
          all = nat_to_string m;
          ds = (if strip_zeros all = [] then ''0'' else strip_zeros all);
          k = int (length ds);
          n = int (length all) - int f
      in if k \<le> n \<and> n \<le> 21 then ds @ replicate (nat (n - k)) (CHR ''0'')
         else if 0 < n \<and> n \<le> 21 then take (nat n) ds @ ''.'' @ drop (nat n) ds
         else if -6 < n \<and> n \<le> 0 then ''0.'' @ replicate (nat (- n)) (CHR ''0'') @ ds
         else (let e = n - 1;
                   ex = (if e < 0 then ''-'' else ''+'') @ nat_to_string (nat \<bar>e\<bar>)
               in if k = 1 then ds @ ''e'' @ ex
                  else take 1 ds @ ''.'' @ drop 1 ds @ ''e'' @ ex))"

fun num_to_string :: "jsnum \<Rightarrow> string" where
  "num_to_string NaN = ''NaN''"
| "num_to_string PosInf = ''Infinity''"
| "num_to_string NegInf = ''-Infinity''"
| "num_to_string (Fin r) =
     (if r = 0 then ''0'' else if r < 0 then ''-'' @ pos_to_string (- r) else pos_to_string r)"

text \<open>\<open>ToString\<close>: an array joins its elements with commas (null and undefined
  elements are empty), a plain object is \<open>[object Object]\<close>.\<close>

fun to_string :: "jsval \<Rightarrow> string" where
  "to_string JUndefined = ''undefined''"
| "to_string JNull = ''null''"
| "to_string (JBool b) = (if b then ''true'' else ''false'')"
| "to_string (JNum n) = num_to_string n"
| "to_string (JStr s) = s"
| "to_string (JArr r xs) =
     concat (case map (\<lambda>x. if x = JUndefined \<or> x = JNull then [] else to_string x) xs of
               [] \<Rightarrow> [] | y # ys \<Rightarrow> y # map (\<lambda>z. '','' @ z) ys)"
| "to_string (JObj r kvs) = ''[object Object]''"


subsection \<open>Reading numbers: \<open>Number(string)\<close>, \<open>parseFloat\<close>, \<open>isFinite\<close>\<close>

definition scale10 :: "rat \<Rightarrow> int \<Rightarrow> rat" where
  "scale10 r e = (if 0 \<le> e then r * 10 ^ nat e else r / 10 ^ nat (- e))"

text \<open>An optional sign: whether it is \<open>-\<close>, and the rest.\<close>

fun strip_sign :: "string \<Rightarrow> bool \<times> string" where
  "strip_sign [] = (False, [])"
| "strip_sign (c # t) =
     (if c = CHR ''-'' then (True, t) else if c = CHR ''+'' then (False, t) else (False, c # t))"

text \<open>An exponent part \<open>e\<close>, sign, digits at the start of the string, when it is complete.\<close>

fun exponent_part :: "string \<Rightarrow> int \<times> string" where
  "exponent_part [] = (0, [])"
| "exponent_part (c # t) =
     (if c = CHR ''e'' \<or> c = CHR ''E'' then
        (let (neg, u) = strip_sign t; ds = takeWhile is_digit u
         in if ds = [] then (0, c # t)
            else ((if neg then - int (digits_val ds) else int (digits_val ds)), dropWhile is_digit u))
      else (0, c # t))"

text \<open>
  The longest prefix that is an unsigned decimal literal (digits, an optional
  fraction, an optional exponent; or a fraction that starts with the point), with its
  value and the rest of the string.
\<close>

definition unsigned_decimal :: "string \<Rightarrow> (rat \<times> string) option" where
  "unsigned_decimal s =
     (let ip = takeWhile is_digit s; r1 = dropWhile is_digit s;
          (fr, r2) = (case r1 of
                        [] \<Rightarrow> ([], r1)
                      | c # t \<Rightarrow> if c = CHR ''.'' then (takeWhile is_digit t, dropWhile is_digit t)
                                 else ([], r1))
      in if ip = [] \<and> fr = [] then None
         else (let (e, r3) = exponent_part r2;
                   m = of_nat (digits_val ip) + of_nat (digits_val fr) / 10 ^ length fr
               in Some (scale10 m e, r3)))"

definition trim :: "string \<Rightarrow> string" where
  "trim s = rev (dropWhile is_space (rev (dropWhile is_space s)))"

definition hex_val :: "char \<Rightarrow> nat option" where
  "hex_val c =
     (if is_digit c then Some (digit_val c)
      else if code (CHR ''a'') \<le> code c \<and> code c \<le> code (CHR ''f'') then Some (code c - code (CHR ''a'') + 10)
      else if code (CHR ''A'') \<le> code c \<and> code c \<le> code (CHR ''F'') then Some (code c - code (CHR ''A'') + 10)
      else None)"

text \<open>An integer literal in base 16, 8 or 2 after its prefix: all of the text must be digits
  of the base.\<close>

definition radix_val :: "nat \<Rightarrow> string \<Rightarrow> jsnum" where
  "radix_val b ds =
     (if ds \<noteq> [] \<and> (\<forall>c \<in> set ds. case hex_val c of None \<Rightarrow> False | Some d \<Rightarrow> d < b)
      then Fin (of_nat (foldl (\<lambda>a c. b * a + the (hex_val c)) 0 ds))
      else NaN)"

text \<open>\<open>Number(s)\<close> on a string (also unary \<open>+\<close>): the whole trimmed text must be a numeric
  literal; the empty text is 0.\<close>

definition str_to_number :: "string \<Rightarrow> jsnum" where
  "str_to_number s =
     (let t = trim s
      in if t = [] then Fin 0
         else if take 2 t = ''0x'' \<or> take 2 t = ''0X'' then radix_val 16 (drop 2 t)
         else if take 2 t = ''0o'' \<or> take 2 t = ''0O'' then radix_val 8 (drop 2 t)
         else if take 2 t = ''0b'' \<or> take 2 t = ''0B'' then radix_val 2 (drop 2 t)
         else (let (neg, u) = strip_sign t
               in if u = ''Infinity'' then (if neg then NegInf else PosInf)
                  else (case unsigned_decimal u of
                          None \<Rightarrow> NaN
                        | Some (r, rest) \<Rightarrow> if rest = [] then Fin (if neg then - r else r) else NaN)))"

text \<open>\<open>parseFloat(s)\<close> on a string: leading white space is skipped and the longest
  numeric prefix is read.\<close>

definition parseFloat :: "string \<Rightarrow> jsnum" where
  "parseFloat s =
     (let (neg, u) = strip_sign (dropWhile is_space s)
      in if lit ''Infinity'' u \<noteq> None then (if neg then NegInf else PosInf)
         else (case unsigned_decimal u of
                 None \<Rightarrow> NaN
               | Some (r, rest) \<Rightarrow> Fin (if neg then - r else r)))"

text \<open>\<open>ToNumber\<close>; an array or object is first turned into its string.\<close>

fun to_number :: "jsval \<Rightarrow> jsnum" where
  "to_number JUndefined = NaN"
| "to_number JNull = Fin 0"
| "to_number (JBool b) = Fin (if b then 1 else 0)"
| "to_number (JNum n) = n"
| "to_number (JStr s) = str_to_number s"
| "to_number v = str_to_number (to_string v)"

definition is_finite :: "jsnum \<Rightarrow> bool" where
  "is_finite n = (case n of Fin r \<Rightarrow> True | _ \<Rightarrow> False)"

text \<open>\<open>util.Number.isNumeric\<close>: \<open>!isNaN(parseFloat(number)) && isFinite(number)\<close>\<close>

definition isNumeric :: "jsval \<Rightarrow> bool" where
  "isNumeric number = (parseFloat (to_string number) \<noteq> NaN \<and> is_finite (to_number number))"

subsection \<open>Comparison operators\<close>










section \<open>util.String.tokenise\<close>

text \<open>
  \<open>BRANCH_PART = /(^|.|\r|\n)\$\{#[^\}]+\}/\<close>. After the prefix group comes the
  text \<open>${#\<close>, a greedy non-empty run of characters other than \<open>}\<close>, and \<open>}\<close>; the
  run cannot give a character back, since the character after a shorter run is
  not \<open>}\<close>. The alternatives of the prefix group are tried in the order written.
\<close>

definition branch_body :: "string \<Rightarrow> string option" where
  "branch_body s =
     (case lit ''${#'' s of
        None \<Rightarrow> None
      | Some u \<Rightarrow>
          (let run = takeWhile (\<lambda>c. c \<noteq> CHR ''}'') u; rest = dropWhile (\<lambda>c. c \<noteq> CHR ''}'') u
           in if run \<noteq> [] \<and> rest \<noteq> [] then Some (''${#'' @ run @ ''}'') else None))"

text \<open>The prefix alternatives \<open>^\<close>, \<open>.\<close>, \<open>\r\<close>, \<open>\n\<close> in order: each gives the prefix text
  and the rest of the string, when it applies.\<close>

definition prefix_alts :: "bool \<Rightarrow> string \<Rightarrow> (string \<times> string) list" where
  "prefix_alts start s =
     (if start then [([], s)] else []) @
     (case s of [] \<Rightarrow> []
      | c # t \<Rightarrow> (if is_dot c then [([c], t)] else []) @
                 (if c = CR then [([c], t)] else []) @
                 (if c = LF then [([c], t)] else []))"

text \<open>The first alternative, in order, for which the continuation succeeds.\<close>

fun first_alt :: "('a \<Rightarrow> 'b option) \<Rightarrow> 'a list \<Rightarrow> 'b option" where
  "first_alt k [] = None"
| "first_alt k (a # as) = (case k a of Some r \<Rightarrow> Some r | None \<Rightarrow> first_alt k as)"

definition branch_part_at :: "bool \<Rightarrow> string \<Rightarrow> (string \<times> string option list) option" where
  "branch_part_at start s =
     first_alt (\<lambda>(pre, t). case branch_body t of None \<Rightarrow> None
                            | Some b \<Rightarrow> Some (pre @ b, [Some pre]))
       (prefix_alts start s)"

definition BRANCH_PART :: "string \<Rightarrow> jsmatch option" where
  "BRANCH_PART s = search branch_part_at s"

text \<open>
  \<open>tokenise(string, pattern, handler)\<close>: while the string is not empty, match the
  pattern; without a match, or with an empty one, the rest of the string is the last
  part; otherwise the text before the match and the handler's text for the match are
  two parts, and the loop goes on after the match.
\<close>

function tokenise :: "string \<Rightarrow> (string \<Rightarrow> jsmatch option) \<Rightarrow> (jsmatch \<Rightarrow> string) \<Rightarrow> string list" where
  "tokenise str pat handler =
     (if length str = 0 then []
      else (case pat str of
              None \<Rightarrow> [str]
            | Some m \<Rightarrow>
                if length (grp0 m) = 0 then [str]
                else take (index m) str # handler m #
                     tokenise (drop (index m + length (grp0 m)) str) pat handler))"
  by pat_completeness auto
termination
  by (relation "measure (\<lambda>(str, pat, handler). length str)") auto

text \<open>The default handler returns the first entry of the match.\<close>

definition first_entry :: "jsmatch \<Rightarrow> string" where
  "first_entry m = grp0 m"

declare tokenise.simps [simp del]

section \<open>util.String.toPath and util.Object.access\<close>

text \<open>
  The own properties that \<open>hasOwnProperty\<close> sees: the fields of an object; the
  indices (in canonical decimal form) and the \<open>length\<close> of an array or a string;
  none on the other values.
\<close>

definition index_key :: "string \<Rightarrow> nat option" where
  "index_key k =
     (if k \<noteq> [] \<and> (\<forall>c \<in> set k. is_digit c) \<and> nat_to_string (digits_val k) = k
      then Some (digits_val k) else None)"

fun own_prop :: "jsval \<Rightarrow> string \<Rightarrow> jsval option" where
  "own_prop (JObj r kvs) k = map_of kvs k"
| "own_prop (JArr r xs) k =
     (if k = ''length'' then Some (JNum (Fin (of_nat (length xs))))
      else (case index_key k of
              None \<Rightarrow> None
            | Some i \<Rightarrow> if i < length xs then Some (xs ! i) else None))"
| "own_prop (JStr s) k =
     (if k = ''length'' then Some (JNum (Fin (of_nat (length s))))
      else (case index_key k of
              None \<Rightarrow> None
            | Some i \<Rightarrow> if i < length s then Some (JStr [s ! i]) else None))"
| "own_prop _ k = None"











section \<open>util.String.supplant\<close>






section \<open>The template engine\<close>

subsection \<open>Errors\<close>


subsection \<open>decode\<close>

text \<open>A decoded operand: a value, or the function that \<open>curry(access, undefined, value)\<close>
  builds, which looks the path up in the data it is called with.\<close>

datatype decoded = Literal jsval | Deferred string

definition is_quote :: "char \<Rightarrow> bool" where
  "is_quote c = (c = CHR 0x22 \<or> c = CHR 0x27 \<or> c = CHR 0x60)"

text \<open>
  \<open>value.match(/^(["'`])?([\s\S]+)?\1$/)\<close> always matches. Group 1 takes part when
  the text starts with a quote and ends, later, with the same quote; group 2 is then
  the text between them, and does not take part when there is none. Otherwise
  group 2 is the whole text (when it is not empty).
\<close>

definition DECODE_PARTS :: "string \<Rightarrow> jsmatch" where
  "DECODE_PARTS v =
     (case v of
        [] \<Rightarrow> \<lparr>index = 0, grp0 = v, grps = [None, None]\<rparr>
      | q # rest \<Rightarrow>
          if is_quote q \<and> rest \<noteq> [] \<and> last rest = q
          then \<lparr>index = 0, grp0 = v,
                 grps = [Some [q], if butlast rest = [] then None else Some (butlast rest)]\<rparr>
          else \<lparr>index = 0, grp0 = v, grps = [None, Some v]\<rparr>)"

definition decode :: "string \<Rightarrow> decoded" where
  "decode v =
     (if v = ''null'' then Literal JNull
      else if v = ''undefined'' then Literal JUndefined
      else if v = ''false'' \<or> v = ''true'' then Literal (JBool (v = ''true''))
      else (let parts = DECODE_PARTS v
            in if grp parts 1 \<noteq> None
               then Literal (case grp parts 2 of None \<Rightarrow> JUndefined | Some x \<Rightarrow> JStr x)
               else if isNumeric (JStr v) then Literal (JNum (str_to_number v))
               else Deferred v))"

subsection \<open>The patterns of the markers\<close>

text \<open>
  A quantified character class in backtracking order: the ways to split the text
  after between \<open>lo\<close> and \<open>hi\<close> leading characters of the class, the longest first.
\<close>

definition splits :: "nat \<Rightarrow> nat \<Rightarrow> (char \<Rightarrow> bool) \<Rightarrow> string \<Rightarrow> (string \<times> string) list" where
  "splits lo hi P s =
     map (\<lambda>k. (take k s, drop k s)) (rev [lo ..< Suc (min hi (length (takeWhile P s)))])"






text \<open>
  The pattern of \<open>makeEachBranch\<close>,
  \<open>/\$\{#each\s+([\w]+)\s+as(\s([\w]+)\s+to)?\s+([\w]+)\}/\<close>. Runs of white space
  and of word characters alternate, so each run is taken whole; only the optional
  group \<open>(\s([\w]+)\s+to)?\<close> is tried first and then left out.
\<close>









subsection \<open>Branches\<close>

text \<open>
  The branches of a tree. A text branch holds its text. A base, \<open>if\<close> or \<open>each\<close>
  branch holds the list \<open>branches\<close> of its children; an \<open>if\<close> branch also the parts
  of its condition (\<open>negation\<close>, \<open>propertyPath\<close>, \<open>test\<close>, \<open>value\<close>), an \<open>each\<close>
  branch \<open>dataKey\<close>, \<open>iterationKey\<close> and \<open>iterationValue\<close>.
\<close>

datatype branch =
    TextBranch string
  | BaseBranch "branch list"
  | IfBranch "string option" string string string "branch list"
  | EachBranch string "string option" string "branch list"

fun branch_type :: "branch \<Rightarrow> string" where
  "branch_type (TextBranch _) = ''text''"
| "branch_type (BaseBranch _) = ''base''"
| "branch_type (IfBranch _ _ _ _ _) = ''if''"
| "branch_type (EachBranch _ _ _ _) = ''each''"

text \<open>\<open>addBranch\<close> pushes a branch on the list of children.\<close>

fun addBranch :: "branch \<Rightarrow> branch \<Rightarrow> branch" where
  "addBranch (BaseBranch bs) b = BaseBranch (bs @ [b])"
| "addBranch (IfBranch n p t v bs) b = IfBranch n p t v (bs @ [b])"
| "addBranch (EachBranch d k v bs) b = EachBranch d k v (bs @ [b])"
| "addBranch (TextBranch x) b = TextBranch x"




subsection \<open>pair\<close>








subsection \<open>Rendering\<close>






text \<open>\<open>object[key] = value\<close> on an object: the property is overwritten or added.\<close>

fun put :: "string \<Rightarrow> jsval \<Rightarrow> (string \<times> jsval) list \<Rightarrow> (string \<times> jsval) list" where
  "put k v [] = [(k, v)]"
| "put k v ((k', v') # kvs) = (if k = k' then (k, v) # kvs else (k', v') # put k v kvs)"

fun set_prop :: "jsval \<Rightarrow> string \<Rightarrow> jsval \<Rightarrow> jsval" where
  "set_prop (JObj r kvs) k v = JObj r (put k v kvs)"
| "set_prop object k v = object"

text \<open>The two assignments of the loop body of \<open>each\<close>: \<open>branchData[iterationValue] =
  pair.value\<close> and, if there is an \<open>iterationKey\<close>, \<open>branchData[iterationKey] = pair.key\<close>.\<close>

definition bind_pair :: "string option \<Rightarrow> string \<Rightarrow> jsval \<times> jsval \<Rightarrow> jsval \<Rightarrow> jsval" where
  "bind_pair iterationKey iterationValue pr branchData =
     (let bd1 = set_prop branchData iterationValue (snd pr)
      in case iterationKey of
           None \<Rightarrow> bd1
         | Some k \<Rightarrow> if k = [] then bd1 else set_prop bd1 k (fst pr))"


subsection \<open>What the specification says of \<open>each\<close>\<close>




subsection \<open>Rendering with the contexts in a store\<close>



subsection \<open>The tree\<close>








subsection \<open>\<open>setup\<close> and \<open>template\<close>\<close>







subsection \<open>The shape of the stack of open branches\<close>


subsection \<open>Trees without iteration\<close>


section \<open>Properties of the tokeniser\<close>

lemma lit_Some: "lit p s = Some u \<Longrightarrow> s = p @ u"
  by (induction p s rule: lit.induct) (auto split: if_splits)

lemma first_alt_Some: "first_alt k as = Some r \<Longrightarrow> \<exists>a \<in> set as. k a = Some r"
  by (induction as) (auto split: option.splits)

lemma prefix_alts_split: "(pre, t) \<in> set (prefix_alts start s) \<Longrightarrow> s = pre @ t"
  by (auto simp: prefix_alts_def split: list.splits if_splits)

lemma branch_body_prefix: "branch_body t = Some b \<Longrightarrow> \<exists>post. t = b @ post"
proof -
  assume a: "branch_body t = Some b"
  then obtain u where u: "lit ''${#'' t = Some u"
    by (auto simp: branch_body_def split: option.splits)
  let ?P = "\<lambda>c. c \<noteq> CHR ''}''"
  from a u have b: "b = ''${#'' @ takeWhile ?P u @ ''}''" and ne: "dropWhile ?P u \<noteq> []"
    by (auto simp: branch_body_def Let_def split: if_splits)
  from ne have "hd (dropWhile ?P u) = CHR ''}''"
    using hd_dropWhile[of ?P u] by auto
  with ne have "dropWhile ?P u = CHR ''}'' # tl (dropWhile ?P u)"
    by (cases "dropWhile ?P u") auto
  then have "u = takeWhile ?P u @ ''}'' @ tl (dropWhile ?P u)"
    by (metis append_Cons append_Nil takeWhile_dropWhile_id)
  with lit_Some[OF u] b show ?thesis by (metis append.assoc)
qed

lemma branch_part_at_prefix:
  assumes "branch_part_at start s = Some (w, gs)"
  shows "\<exists>post. s = w @ post"
proof -
  from assms obtain pre t where m: "(pre, t) \<in> set (prefix_alts start s)"
    and k: "(case branch_body t of None \<Rightarrow> None | Some b \<Rightarrow> Some (pre @ b, [Some pre])) = Some (w, gs)"
    unfolding branch_part_at_def by (fastforce dest: first_alt_Some)
  from k obtain b where b: "branch_body t = Some b" and w: "w = pre @ b"
    by (auto split: option.splits)
  from branch_body_prefix[OF b] obtain post where "t = b @ post" by blast
  with prefix_alts_split[OF m] w show ?thesis by auto
qed

text \<open>A search finds its match in the string, at the index it reports.\<close>

lemma search_from_sound:
  assumes "search_from mat i s = Some m"
    and "\<And>start t w gs. mat start t = Some (w, gs) \<Longrightarrow> \<exists>post. t = w @ post"
  shows "\<exists>pre post. s = pre @ grp0 m @ post \<and> index m = i + length pre"
  using assms(1)
proof (induction s arbitrary: i)
  case Nil
  then show ?case using assms(2)[of "i = 0" "[]"] by (auto split: option.splits)
next
  case (Cons c t)
  show ?case
  proof (cases "mat (i = 0) (c # t)")
    case None
    with Cons.prems have "search_from mat (Suc i) t = Some m" by simp
    from Cons.IH[OF this] obtain pre post
      where "t = pre @ grp0 m @ post" "index m = Suc i + length pre"
      by blast
    then have "c # t = (c # pre) @ grp0 m @ post \<and> index m = i + length (c # pre)" by simp
    then show ?thesis by blast
  next
    case (Some r)
    obtain w gs where r: "r = (w, gs)" by (cases r)
    with Some Cons.prems have m: "m = \<lparr>index = i, grp0 = w, grps = gs\<rparr>" by simp
    from assms(2) Some r obtain post where "c # t = w @ post" by blast
    with m have "c # t = [] @ grp0 m @ post \<and> index m = i + length ([]::string)" by simp
    then show ?thesis by blast
  qed
qed

lemma BRANCH_PART_sound:
  assumes "BRANCH_PART s = Some m"
  shows "\<exists>pre post. s = pre @ grp0 m @ post \<and> index m = length pre"
  using search_from_sound[of branch_part_at 0 s m] assms branch_part_at_prefix
  unfolding BRANCH_PART_def search_def by fastforce

text \<open>With the default handler and a pattern whose matches lie in the string, the
  parts of a string join to the string.\<close>

lemma tokenise_concat:
  assumes "\<And>t m. pat t = Some m \<Longrightarrow> \<exists>pre post. t = pre @ grp0 m @ post \<and> index m = length pre"
  shows "concat (tokenise s pat first_entry) = s"
proof (induction "length s" arbitrary: s rule: less_induct)
  case less
  show ?case
  proof (cases "length s = 0")
    case True
    then show ?thesis by (simp add: tokenise.simps)
  next
    case ne: False
    show ?thesis
    proof (cases "pat s")
      case None
      with ne show ?thesis by (simp add: tokenise.simps)
    next
      case (Some m)
      show ?thesis
      proof (cases "length (grp0 m) = 0")
        case True
        with ne Some show ?thesis by (simp add: tokenise.simps)
      next
        case False
        from assms[OF Some] obtain pre post
          where sp: "s = pre @ grp0 m @ post" and ix: "index m = length pre" by blast
        have dr: "drop (index m + length (grp0 m)) s = post"
          using sp ix by (metis append.assoc append_eq_conv_conj length_append)
        have tk: "take (index m) s = pre" using sp ix by simp
        have "length post < length s" using sp False by simp
        then have ih: "concat (tokenise post pat first_entry) = post"
          by (rule less)
        have "tokenise s pat first_entry = pre # grp0 m # tokenise post pat first_entry"
          using ne Some False dr tk by (subst tokenise.simps) (simp add: first_entry_def)
        with ih sp show ?thesis by simp
      qed
    qed
  qed
qed

text \<open>
  Claim C4. For every input string, the fragments that the tokeniser produces with
  the control-marker pattern \<open>BRANCH_PART\<close> concatenate, in order, to the input
  string: no text is dropped or duplicated. And for every pattern and handler, a
  zero-length match on a non-empty string ends the tokenisation with the rest of the
  string as one last literal fragment.
\<close>

theorem tokenise_round_trip:
  "concat (tokenise s BRANCH_PART first_entry) = s \<and>
   (\<forall>pat handler. s \<noteq> [] \<and> (\<exists>m. pat s = Some m \<and> grp0 m = []) \<longrightarrow> tokenise s pat handler = [s])"
proof
  show "concat (tokenise s BRANCH_PART first_entry) = s"
    by (rule tokenise_concat) (rule BRANCH_PART_sound)
next
  show "\<forall>pat handler. s \<noteq> [] \<and> (\<exists>m. pat s = Some m \<and> grp0 m = []) \<longrightarrow> tokenise s pat handler = [s]"
    by (auto simp: tokenise.simps)
qed

theorem tokenise_round_trip_witness:
  "concat (tokenise ''a${#if x}b${#end if}'' BRANCH_PART first_entry) = ''a${#if x}b${#end if}'' \<and>
   tokenise ''ab'' (\<lambda>t. Some \<lparr>index = 1, grp0 = [], grps = []\<rparr>) first_entry = [''ab'']"
proof
  show "concat (tokenise ''a${#if x}b${#end if}'' BRANCH_PART first_entry) = ''a${#if x}b${#end if}''"
    using tokenise_round_trip[of "''a${#if x}b${#end if}''"] by (rule conjunct1)
next
  have "''ab'' \<noteq> [] \<and> (\<exists>m. (\<lambda>t. Some \<lparr>index = 1, grp0 = [], grps = []\<rparr>) ''ab'' = Some m \<and> grp0 m = [])"
    by simp
  with tokenise_round_trip[of "''ab''", THEN conjunct2, rule_format,
      of "\<lambda>t. Some \<lparr>index = 1, grp0 = [], grps = []\<rparr>" first_entry]
  show "tokenise ''ab'' (\<lambda>t. Some \<lparr>index = 1, grp0 = [], grps = []\<rparr>) first_entry = [''ab'']"
    by simp
qed

section \<open>Properties of the tree builder\<close>

lemma branch_type_addBranch [simp]: "branch_type (addBranch b c) = branch_type b"
  by (cases b) simp_all













section \<open>Properties of the conditions\<close>




text \<open>The keywords decode to their values.\<close>

lemma decode_keywords:
  "decode ''null'' = Literal JNull \<and> decode ''undefined'' = Literal JUndefined
   \<and> decode ''true'' = Literal (JBool True) \<and> decode ''false'' = Literal (JBool False)"
  by (simp add: decode_def)

text \<open>A token in matching quotes, with something between them, decodes to the text
  between them, whatever it is.\<close>

lemma decode_quoted:
  assumes "is_quote q" and "inner \<noteq> []"
  shows "decode (q # inner @ [q]) = Literal (JStr inner)"
proof -
  have k: "q # inner @ [q] \<noteq> ''null''" "q # inner @ [q] \<noteq> ''undefined''"
    "q # inner @ [q] \<noteq> ''true''" "q # inner @ [q] \<noteq> ''false''"
    using assms(1) by (auto simp: is_quote_def)
  have "DECODE_PARTS (q # inner @ [q])
        = \<lparr>index = 0, grp0 = q # inner @ [q], grps = [Some [q], Some inner]\<rparr>"
    using assms by (simp add: DECODE_PARTS_def butlast_append)
  with k show ?thesis by (simp add: decode_def grp_def)
qed

text \<open>A token that is no keyword and does not lie in matching quotes is a number if it
  is numeric, and a path to look up otherwise.\<close>

lemma decode_unquoted:
  assumes "v \<notin> {''null'', ''undefined'', ''true'', ''false''}"
    and "v = [] \<or> \<not> is_quote (hd v) \<or> tl v = [] \<or> last v \<noteq> hd v"
  shows "decode v = (if isNumeric (JStr v) then Literal (JNum (str_to_number v)) else Deferred v)"
proof -
  have "grp (DECODE_PARTS v) 1 = None"
    using assms(2) by (cases v) (auto simp: DECODE_PARTS_def grp_def)
  with assms(1) show ?thesis by (simp add: decode_def)
qed



section \<open>Properties of the \<open>each\<close> markers\<close>















section \<open>Properties of rendering\<close>

subsection \<open>The loops of \<open>render\<close>\<close>








lemma bind_pair_obj: "\<exists>kvs'. bind_pair ik iv pr (JObj r kvs) = JObj r kvs'"
  by (auto simp: bind_pair_def Let_def split: option.splits)









subsection \<open>Errors of rendering\<close>







subsection \<open>One placeholder\<close>







section \<open>Properties of \<open>each\<close>\<close>

subsection \<open>Indices as keys\<close>













lemma map_of_put: "map_of (put k v kvs) = (map_of kvs)(k \<mapsto> v)"
  by (induction kvs) auto

lemma own_prop_set_prop:
  "own_prop (set_prop (JObj r kvs) k v) k' = (if k' = k then Some v else own_prop (JObj r kvs) k')"
  by (simp add: map_of_put)






section \<open>Properties of the escape\<close>






















section \<open>What \<open>render\<close> writes\<close>












end
